theory Spec2Isabelle
  imports Main "HOL-Library.AList"
begin

section \<open>Python values used by piston/authentication.py\<close>

text \<open>
  Exceptions are values. \<open>OAuthError\<close> carries the message attribute of
  \<^verbatim>\<open>oauth.OAuthError\<close>; the other constructors are the built-in exceptions
  the module can raise and never catches by name.
\<close>

datatype exn =
    OAuthError string
  | ValueError
  | AttributeError
  | TypeError
  | Base64Error
  | OtherException string

text \<open>
  \<open>request.user\<close> is either an \<^verbatim>\<open>AnonymousUser()\<close> (all of which are equal
  to each other) or a \<^verbatim>\<open>User\<close> row, identified by its primary key.
\<close>

datatype user = AnonymousUser | User nat

text \<open>
  The part of Django's \<^verbatim>\<open>HttpRequest\<close> the module reads or writes.
  Dictionaries are association lists; \<open>map_of\<close> is \<^verbatim>\<open>dict.get\<close>.
  \<open>absolute_uri\<close> is the value of \<^verbatim>\<open>request.build_absolute_uri()\<close>.
\<close>

record request =
  http_method :: string
  absolute_uri :: string
  META :: "(string \<times> string) list"
  environ :: "(string \<times> string) list"
  GET :: "(string \<times> string) list"
  POST :: "(string \<times> string) list"
  session :: "(string \<times> string) list"
  req_user :: user
  throttle_extra :: "nat option"

text \<open>
  An \<^verbatim>\<open>HttpResponse\<close>: status code, the headers this module sets (the
  framework's default Content-Type is left out) and the body.
\<close>

record response =
  status_code :: nat
  headers :: "(string \<times> string) list"
  content :: string

definition HttpResponse :: "string \<Rightarrow> response" where
  "HttpResponse body = \<lparr>status_code = 200, headers = [], content = body\<rparr>"

text \<open>\<^verbatim>\<open>response[k] = v\<close>\<close>

definition set_header :: "string \<Rightarrow> string \<Rightarrow> response \<Rightarrow> response" where
  "set_header k v resp = resp\<lparr>headers := AList.update k v (headers resp)\<rparr>"

definition get_header :: "response \<Rightarrow> string \<Rightarrow> string option" where
  "get_header resp k = map_of (headers resp) k"

subsection \<open>String methods\<close>

text \<open>\<^verbatim>\<open>s.split(sep, 1)\<close>: one or two pieces, cut at the first separator.\<close>

definition split1 :: "char \<Rightarrow> string \<Rightarrow> string list" where
  "split1 sep s =
     (let a = takeWhile (\<lambda>c. c \<noteq> sep) s; r = dropWhile (\<lambda>c. c \<noteq> sep) s
      in if r = [] then [a] else [a, tl r])"

text \<open>
  \<^verbatim>\<open>(x, y) = pieces\<close>: unpacking anything but two pieces raises
  \<^verbatim>\<open>ValueError\<close>.
\<close>

fun unpack2 :: "string list \<Rightarrow> exn + (string \<times> string)" where
  "unpack2 [a, b] = Inr (a, b)"
| "unpack2 _ = Inl ValueError"

text \<open>\<^verbatim>\<open>s.lower()\<close> on a byte string: the letters A to Z only.\<close>

definition lower_char :: "char \<Rightarrow> char" where
  "lower_char c =
     (case map_of (zip ''ABCDEFGHIJKLMNOPQRSTUVWXYZ'' ''abcdefghijklmnopqrstuvwxyz'') c of
        None \<Rightarrow> c
      | Some l \<Rightarrow> l)"

definition lower :: "string \<Rightarrow> string" where
  "lower s = map lower_char s"

text \<open>\<^verbatim>\<open>s.strip()\<close>: the six whitespace bytes are removed at both ends.\<close>

definition is_space :: "char \<Rightarrow> bool" where
  "is_space c = (c \<in> set [CHR '' '', CHR 0x09, CHR 0x0A, CHR 0x0B, CHR 0x0C, CHR 0x0D])"

definition strip :: "string \<Rightarrow> string" where
  "strip s = rev (dropWhile is_space (rev (dropWhile is_space s)))"

section \<open>HttpBasicAuthentication\<close>

text \<open>
  The credential check returns the \<^verbatim>\<open>User\<close> on success and
  \<^verbatim>\<open>False\<close> otherwise: \<open>None\<close> is the falsy answer.
\<close>

type_synonym auth_func = "string \<Rightarrow> string \<Rightarrow> user option"

text \<open>
  \<^verbatim>\<open>django_auth\<close> against a user table: \<^verbatim>\<open>User.objects.get\<close> raising
  \<^verbatim>\<open>DoesNotExist\<close> is the missing row, \<^verbatim>\<open>check_password\<close> is the
  predicate stored with the row.
\<close>

definition django_auth :: "(string \<times> (nat \<times> (string \<Rightarrow> bool))) list \<Rightarrow> auth_func" where
  "django_auth users username password =
     (case map_of users username of
        None \<Rightarrow> None
      | Some (uid, check_password) \<Rightarrow>
          (if check_password password then Some (User uid) else None))"

record HttpBasicAuthentication =
  auth_func :: auth_func
  realm :: string

text \<open>\<^verbatim>\<open>__init__(self, auth_func=django_auth, realm='API')\<close>\<close>

definition basic_init :: "auth_func \<Rightarrow> string \<Rightarrow> HttpBasicAuthentication" where
  "basic_init f r = \<lparr>auth_func = f, realm = r\<rparr>"

definition basic_init_default :: "auth_func \<Rightarrow> HttpBasicAuthentication" where
  "basic_init_default f = basic_init f ''API''"

text \<open>
  \<^verbatim>\<open>is_authenticated\<close>. The base64 codec of the Python runtime is the
  parameter \<open>b64decode\<close> (\<open>Inl\<close> when \<^verbatim>\<open>decode('base64')\<close> raises).
  The result is the returned truth value with the request as the method leaves
  it, or the exception that escapes.
\<close>

definition basic_is_authenticated ::
  "(string \<Rightarrow> exn + string) \<Rightarrow> HttpBasicAuthentication \<Rightarrow> request \<Rightarrow> exn + (bool \<times> request)" where
  "basic_is_authenticated b64decode self request =
     (case map_of (META request) ''HTTP_AUTHORIZATION'' of
        None \<Rightarrow> Inr (False, request)
      | Some auth_string \<Rightarrow>
          if auth_string = [] then Inr (False, request)
          else
            (case unpack2 (split1 CHR '' '' auth_string) of
               Inl e \<Rightarrow> Inl e
             | Inr (authmeth, auth) \<Rightarrow>
                 if lower authmeth \<noteq> ''basic'' then Inr (False, request)
                 else
                   (case b64decode (strip auth) of
                      Inl e \<Rightarrow> Inl e
                    | Inr decoded \<Rightarrow>
                        (case unpack2 (split1 CHR '':'' decoded) of
                           Inl e \<Rightarrow> Inl e
                         | Inr (username, password) \<Rightarrow>
                             (let u = (case auth_func self username password of
                                         None \<Rightarrow> AnonymousUser
                                       | Some found \<Rightarrow> found);
                                  request' = request\<lparr>req_user := u\<rparr>
                              in Inr (\<not> (req_user request' \<in> set [AnonymousUser]), request'))))))"

text \<open>\<^verbatim>\<open>challenge\<close>\<close>

definition basic_challenge :: "HttpBasicAuthentication \<Rightarrow> response" where
  "basic_challenge self =
     (set_header ''WWW-Authenticate'' (''Basic realm=\"'' @ realm self @ ''\"'')
        (HttpResponse ''Authorization Required''))\<lparr>status_code := 401\<rparr>"

section \<open>OAuth: the collaborators of the module\<close>

text \<open>
  The \<^verbatim>\<open>Consumer\<close> and \<^verbatim>\<open>Token\<close> rows the module reads:
  \<^verbatim>\<open>token.key\<close>, \<^verbatim>\<open>token.user\<close>, \<^verbatim>\<open>token.consumer.id\<close>.
\<close>

record consumer =
  consumer_id :: nat
  consumer_key :: string
  consumer_secret :: string

record token =
  token_key :: string
  token_secret :: string
  token_user :: user
  token_consumer :: consumer

text \<open>
  Modelled from the spec: an \<^verbatim>\<open>oauth.OAuthRequest\<close>, whose class is not
  part of the sources, with what the specification's data model gives it:
  method, URL and the OAuth parameters. The module only hands it on.
\<close>

record oauth_request =
  oauth_method :: string
  oauth_url :: string
  oauth_parameters :: "(string \<times> string) list"

text \<open>
  \<^verbatim>\<open>oauth.OAuthServer(DataStore(oauth_request))\<close> with the signature
  methods added to it.
\<close>

datatype data_store = DataStore oauth_request

record oauth_server =
  data_store :: data_store
  signature_methods :: "string list"

definition OAuthServer :: "data_store \<Rightarrow> oauth_server" where
  "OAuthServer store = \<lparr>data_store = store, signature_methods = []\<rparr>"

definition add_signature_method :: "string \<Rightarrow> oauth_server \<Rightarrow> oauth_server" where
  "add_signature_method name srv = srv\<lparr>signature_methods := signature_methods srv @ [name]\<rparr>"

text \<open>
  The operations of the \<^verbatim>\<open>oauth\<close> module and of the token rows that the
  module calls; their code is not part of the sources, so they are parameters.
  An operation that reads or writes the credential store takes the store
  \<open>'db\<close> and returns it; \<open>Inl\<close> is the exception it raises.
  \<open>to_string t only_key\<close> is \<^verbatim>\<open>t.to_string(only_key=...)\<close>.
\<close>

record 'db oauth_lib =
  from_request ::
    "string \<Rightarrow> string \<Rightarrow> (string \<times> string) list \<Rightarrow> (string \<times> string) list \<Rightarrow> string
      \<Rightarrow> exn + oauth_request option"
  fetch_request_token :: "oauth_server \<Rightarrow> oauth_request \<Rightarrow> 'db \<Rightarrow> (exn + token) \<times> 'db"
  fetch_access_token :: "oauth_server \<Rightarrow> oauth_request \<Rightarrow> 'db \<Rightarrow> (exn + token) \<times> 'db"
  authorize_token :: "oauth_server \<Rightarrow> token \<Rightarrow> user \<Rightarrow> 'db \<Rightarrow> (exn + token) \<times> 'db"
  verify_request ::
    "oauth_server \<Rightarrow> oauth_request \<Rightarrow> 'db
      \<Rightarrow> (exn + (consumer option \<times> token option \<times> (string \<times> string) list)) \<times> 'db"
  get_callback :: "oauth_server \<Rightarrow> oauth_request \<Rightarrow> exn + string"
  get_normalized_parameters :: "oauth_request \<Rightarrow> exn + string"
  to_string :: "token \<Rightarrow> bool \<Rightarrow> string"

text \<open>
  What the module takes from Django: the two optional settings, the views
  \<^verbatim>\<open>get_callable\<close> resolves a view name to (called with the arguments the
  module gives them), the escaping \<^verbatim>\<open>HttpResponseRedirect\<close> applies to its
  target, and the URL \<^verbatim>\<open>login_required\<close> sends an anonymous user to.
\<close>

record 'db django =
  OAUTH_AUTH_VIEW :: "string option"
  OAUTH_CALLBACK_VIEW :: "string option"
  call_auth_view ::
    "string \<Rightarrow> request \<Rightarrow> token \<Rightarrow> string option \<Rightarrow> string \<Rightarrow> 'db \<Rightarrow> (exn + response) \<times> 'db"
  call_callback_view :: "string \<Rightarrow> request \<Rightarrow> token \<Rightarrow> 'db \<Rightarrow> (exn + response) \<times> 'db"
  iri_to_uri :: "string \<Rightarrow> string"
  login_url :: "request \<Rightarrow> string"


text \<open>
  Modelled from the spec: \<^verbatim>\<open>oauth.build_authenticate_header\<close>, whose code is
  not part of the sources. The specification asks for the OAuth
  \<^verbatim>\<open>WWW-Authenticate\<close> header on a 401; for a realm it is the one header
  \<^verbatim>\<open>WWW-Authenticate: OAuth realm="<realm>"\<close>.
\<close>

definition build_authenticate_header :: "string \<Rightarrow> (string \<times> string) list" where
  "build_authenticate_header realm_name =
     [(''WWW-Authenticate'', ''OAuth realm=\"'' @ realm_name @ ''\"'')]"

text \<open>
  \<^verbatim>\<open>message.encode('utf-8')\<close> of a text whose code points are the
  characters of the string: a code point below 128 is one byte, the others
  two.
\<close>

definition utf8_char :: "char \<Rightarrow> string" where
  "utf8_char c =
     (let n = (of_char c :: nat)
      in if n < 128 then [c] else [char_of (192 + n div 64), char_of (128 + n mod 64)])"

definition encode_utf8 :: "string \<Rightarrow> string" where
  "encode_utf8 s = concat (map utf8_char s)"

section \<open>OAuth: the module\<close>

text \<open>
  \<^verbatim>\<open>request.REQUEST.items()\<close>: the items of \<^verbatim>\<open>POST\<close>, then those of
  \<^verbatim>\<open>GET\<close>.
\<close>

definition REQUEST_items :: "request \<Rightarrow> (string \<times> string) list" where
  "REQUEST_items request = POST request @ GET request"

text \<open>\<^verbatim>\<open>p in request.REQUEST\<close>\<close>

definition REQUEST_contains :: "request \<Rightarrow> string \<Rightarrow> bool" where
  "REQUEST_contains request p = (p \<in> set (map fst (POST request)) \<or> p \<in> set (map fst (GET request)))"

text \<open>
  \<^verbatim>\<open>initialize_server_request\<close>: the server and the request, or
  \<^verbatim>\<open>(None, None)\<close> when \<^verbatim>\<open>from_request\<close> gives no request.
\<close>

definition initialize_server_request ::
  "'db oauth_lib \<Rightarrow> request \<Rightarrow> exn + (oauth_server option \<times> oauth_request option)" where
  "initialize_server_request L request =
     (case from_request L (http_method request) (absolute_uri request) (META request)
             (REQUEST_items request)
             (case map_of (environ request) ''QUERY_STRING'' of None \<Rightarrow> '''' | Some q \<Rightarrow> q) of
        Inl e \<Rightarrow> Inl e
      | Inr None \<Rightarrow> Inr (None, None)
      | Inr (Some oauth_req) \<Rightarrow>
          Inr (Some (add_signature_method ''HMAC-SHA1''
                      (add_signature_method ''PLAINTEXT'' (OAuthServer (DataStore oauth_req)))),
               Some oauth_req))"

text \<open>\<^verbatim>\<open>send_oauth_error(err)\<close>, given \<^verbatim>\<open>err.message\<close>.\<close>

definition send_oauth_error :: "string \<Rightarrow> response" where
  "send_oauth_error message =
     foldl (\<lambda>resp (k, v). set_header k v resp)
       ((HttpResponse (encode_utf8 message))\<lparr>status_code := 401\<rparr>)
       (build_authenticate_header ''OAuth'')"

definition INVALID_PARAMS_RESPONSE :: response where
  "INVALID_PARAMS_RESPONSE = send_oauth_error ''Invalid request parameters.''"

text \<open>
  \<^verbatim>\<open>oauth_request_token\<close>. A server without a request cannot come out of
  \<open>initialize_server_request\<close>; the library would be handed \<^verbatim>\<open>None\<close>.
\<close>

definition oauth_request_token :: "'db oauth_lib \<Rightarrow> request \<Rightarrow> 'db \<Rightarrow> (exn + response) \<times> 'db" where
  "oauth_request_token L request db =
     (case initialize_server_request L request of
        Inl e \<Rightarrow> (Inl e, db)
      | Inr (None, oauth_req) \<Rightarrow> (Inr INVALID_PARAMS_RESPONSE, db)
      | Inr (Some srv, None) \<Rightarrow> (Inl AttributeError, db)
      | Inr (Some srv, Some oauth_req) \<Rightarrow>
          (case fetch_request_token L srv oauth_req db of
             (Inr tok, db') \<Rightarrow> (Inr (HttpResponse (to_string L tok False)), db')
           | (Inl (OAuthError m), db') \<Rightarrow> (Inr (send_oauth_error m), db')
           | (Inl e, db') \<Rightarrow> (Inl e, db')))"


text \<open>
  \<^verbatim>\<open>int(s)\<close> of a string: surrounding whitespace, an optional sign and
  decimal digits; anything else raises \<^verbatim>\<open>ValueError\<close>.
\<close>

definition digit_val :: "char \<Rightarrow> nat option" where
  "digit_val c = map_of (zip ''0123456789'' [0, 1, 2, 3, 4, 5, 6, 7, 8, 9]) c"

fun digits_val :: "nat \<Rightarrow> string \<Rightarrow> nat option" where
  "digits_val acc [] = Some acc"
| "digits_val acc (c # cs) =
     (case digit_val c of None \<Rightarrow> None | Some d \<Rightarrow> digits_val (10 * acc + d) cs)"

definition py_int :: "string \<Rightarrow> exn + int" where
  "py_int s =
     (let t = strip s;
          negative = (t \<noteq> [] \<and> hd t = CHR ''-'');
          ds = (if t \<noteq> [] \<and> (hd t = CHR ''-'' \<or> hd t = CHR ''+'') then tl t else t)
      in if ds = [] then Inl ValueError
         else (case digits_val 0 ds of
                 None \<Rightarrow> Inl ValueError
               | Some n \<Rightarrow> Inr (if negative then - int n else int n)))"




section \<open>OAuthAuthentication\<close>

definition must_have :: "string list" where
  "must_have =
     map (\<lambda>s. ''oauth_'' @ s)
       [''consumer_key'', ''token'', ''signature'', ''signature_method'', ''timestamp'', ''nonce'']"

text \<open>\<^verbatim>\<open>p in l\<close> for two strings: \<open>p\<close> occurs in \<open>l\<close> as a substring.\<close>

fun startswith :: "string \<Rightarrow> string \<Rightarrow> bool" where
  "startswith [] l = True"
| "startswith (p # ps) [] = False"
| "startswith (p # ps) (c # cs) = (p = c \<and> startswith ps cs)"

fun str_contains :: "string \<Rightarrow> string \<Rightarrow> bool" where
  "str_contains p [] = (p = [])"
| "str_contains p (c # cs) = (startswith p (c # cs) \<or> str_contains p cs)"

text \<open>
  \<^verbatim>\<open>is_valid_request\<close>: \<open>is_in\<close> is applied to the raw header string
  (\<^verbatim>\<open>''\<close> when the header is absent) and to \<^verbatim>\<open>request.REQUEST\<close>.
\<close>

definition is_valid_request :: "request \<Rightarrow> bool" where
  "is_valid_request request =
     (let auth_params = (case map_of (META request) ''HTTP_AUTHORIZATION'' of
                           None \<Rightarrow> ''''
                         | Some h \<Rightarrow> h)
      in list_all (\<lambda>p. str_contains p auth_params) must_have
         \<or> list_all (\<lambda>p. REQUEST_contains request p) must_have)"

text \<open>
  \<^verbatim>\<open>validate_token(request, check_timestamp=True, check_nonce=True)\<close>.
  Without a request there is no server, and the method call on
  \<^verbatim>\<open>None\<close> raises \<^verbatim>\<open>AttributeError\<close>.
\<close>

definition validate_token ::
  "'db oauth_lib \<Rightarrow> request \<Rightarrow> bool \<Rightarrow> bool \<Rightarrow> 'db
    \<Rightarrow> (exn + (consumer option \<times> token option \<times> (string \<times> string) list)) \<times> 'db" where
  "validate_token L request check_timestamp check_nonce db =
     (case initialize_server_request L request of
        Inl e \<Rightarrow> (Inl e, db)
      | Inr (None, oauth_req) \<Rightarrow> (Inl AttributeError, db)
      | Inr (Some srv, None) \<Rightarrow> (Inl AttributeError, db)
      | Inr (Some srv, Some oauth_req) \<Rightarrow> verify_request L srv oauth_req db)"

text \<open>
  \<^verbatim>\<open>is_authenticated\<close>. The result is the returned truth value or the
  escaping exception, the request as the method leaves it, the responses
  printed to standard output, and the store.
\<close>

definition oauth_is_authenticated ::
  "'db oauth_lib \<Rightarrow> request \<Rightarrow> 'db \<Rightarrow> (exn + bool) \<times> request \<times> response list \<times> 'db" where
  "oauth_is_authenticated L request db =
     (if is_valid_request request then
        (case validate_token L request True True db of
           (Inl (OAuthError m), db') \<Rightarrow> (Inr False, request, [send_oauth_error m], db')
         | (Inl e, db') \<Rightarrow> (Inl e, request, [], db')
         | (Inr (cons, tok, parameters), db') \<Rightarrow>
             (case (cons, tok) of
                (Some c, Some t) \<Rightarrow>
                  (Inr True,
                   request\<lparr>req_user := token_user t,
                           throttle_extra := Some (consumer_id (token_consumer t))\<rparr>,
                   [], db')
              | _ \<Rightarrow> (Inr False, request, [], db')))
      else (Inr False, request, [], db))"

text \<open>
  \<^verbatim>\<open>challenge\<close> of the OAuth handler: a 401 with the header built for the
  realm \<^verbatim>\<open>API\<close>; \<open>tmpl\<close> is the rendered template
  \<^verbatim>\<open>oauth/challenge.html\<close>.
\<close>

definition oauth_challenge :: "string \<Rightarrow> response" where
  "oauth_challenge tmpl =
     (foldl (\<lambda>resp (k, v). set_header k v resp) ((HttpResponse '''')\<lparr>status_code := 401\<rparr>)
        (build_authenticate_header ''API''))\<lparr>content := tmpl\<rparr>"

section \<open>NoAuthentication\<close>

definition no_authentication_is_authenticated :: "request \<Rightarrow> bool" where
  "no_authentication_is_authenticated request = True"

section \<open>What the specification asks of the responses and of the pre-check\<close>


text \<open>
  Modelled from the spec: \<^verbatim>\<open>to_string\<close> of a token row, whose code is not
  part of the sources. The specification gives the token representation as the
  urlencoded body \<^verbatim>\<open>oauth_token=...&oauth_token_secret=...\<close>; \<open>quote\<close> is
  the percent-encoding of a value.
\<close>

definition token_to_string :: "(string \<Rightarrow> string) \<Rightarrow> token \<Rightarrow> bool \<Rightarrow> string" where
  "token_to_string quote tok only_key =
     ''oauth_token='' @ quote (token_key tok)
       @ (if only_key then '''' else ''&oauth_token_secret='' @ quote (token_secret tok))"

text \<open>\<^verbatim>\<open>s.split(sep)\<close>: all the pieces between separators.\<close>

fun split_all :: "char \<Rightarrow> string \<Rightarrow> string list" where
  "split_all sep [] = [[]]"
| "split_all sep (c # cs) =
     (if c = sep then [] # split_all sep cs
      else (case split_all sep cs of
              [] \<Rightarrow> [[c]]
            | piece # pieces \<Rightarrow> (c # piece) # pieces))"

text \<open>
  Modelled from the spec: the parameter names of an Authorization header, whose
  parser (\<^verbatim>\<open>OAuthRequest\<close>) is not part of the sources. The specification:
  if the scheme is \<^verbatim>\<open>OAuth\<close>, the header is a list of comma-separated
  \<^verbatim>\<open>key="value"\<close> pairs.
\<close>

definition header_param_names :: "string \<Rightarrow> string list" where
  "header_param_names h =
     (if startswith ''OAuth '' h
      then map (\<lambda>part. takeWhile (\<lambda>c. c \<noteq> CHR ''='') (strip part))
             (split_all CHR '','' (drop 6 h))
      else [])"

text \<open>
  The pre-check in the specification's words: all six names are parameters of
  the Authorization header, or all six are parameters of the query and body.
\<close>

definition spec_is_valid_request :: "request \<Rightarrow> bool" where
  "spec_is_valid_request request =
     (list_all (\<lambda>p. p \<in> set (header_param_names
                                (case map_of (META request) ''HTTP_AUTHORIZATION'' of
                                   None \<Rightarrow> ''''
                                 | Some h \<Rightarrow> h))) must_have
      \<or> list_all (\<lambda>p. REQUEST_contains request p) must_have)"

section \<open>Example inputs\<close>

definition blank_request :: request where
  "blank_request =
     \<lparr>http_method = ''GET'', absolute_uri = ''http://api.example/'', META = [], environ = [],
      GET = [], POST = [], session = [], req_user = AnonymousUser, throttle_extra = None\<rparr>"

text \<open>The base64 codec at the payloads of the examples; it rejects every other one.\<close>

definition example_b64decode :: "string \<Rightarrow> exn + string" where
  "example_b64decode s =
     (if s = ''YWxpY2U6d3JvbmdwYXNz'' then Inr ''alice:wrongpass''
      else if s = ''YWxpY2U='' then Inr ''alice''
      else Inl Base64Error)"

definition example_consumer :: consumer where
  "example_consumer = \<lparr>consumer_id = 5, consumer_key = ''ck1'', consumer_secret = ''cs1''\<rparr>"

definition example_request_token :: token where
  "example_request_token =
     \<lparr>token_key = ''rt1'', token_secret = ''rs1'', token_user = AnonymousUser,
      token_consumer = example_consumer\<rparr>"

definition example_access_token :: token where
  "example_access_token =
     \<lparr>token_key = ''at1'', token_secret = ''as1'', token_user = User 42,
      token_consumer = example_consumer\<rparr>"

text \<open>
  A small OAuth library over a store that lists the keys of the authorized
  request tokens: it knows the consumer \<^verbatim>\<open>ck1\<close> with the secret
  \<^verbatim>\<open>cs1\<close>, the request token \<^verbatim>\<open>rt1\<close> and the access token
  \<^verbatim>\<open>at1\<close>.
\<close>

definition example_lib :: "string list oauth_lib" where
  "example_lib =
     \<lparr>from_request = (\<lambda>m url hdrs params qs.
        if params = [] then Inr None
        else Inr (Some \<lparr>oauth_method = m, oauth_url = url, oauth_parameters = params\<rparr>)),
      fetch_request_token = (\<lambda>srv oreq db.
        if map_of (oauth_parameters oreq) ''oauth_consumer_key'' = Some ''ck1''
        then (Inr example_request_token, db)
        else (Inl (OAuthError ''Invalid consumer''), db)),
      fetch_access_token = (\<lambda>srv oreq db.
        if map_of (oauth_parameters oreq) ''oauth_token'' = Some ''rt1'' \<and> ''rt1'' \<in> set db
        then (Inr example_access_token, db)
        else (Inl (OAuthError ''Invalid request token''), db)),
      authorize_token = (\<lambda>srv tok u db.
        if token_key tok \<in> set db then (Inl (OAuthError ''Token already authorized''), db)
        else (Inr (tok\<lparr>token_user := u\<rparr>), token_key tok # db)),
      verify_request = (\<lambda>srv oreq db.
        if map_of (oauth_parameters oreq) ''oauth_token'' = Some ''at1''
        then (Inr (Some example_consumer, Some example_access_token, oauth_parameters oreq), db)
        else (Inl (OAuthError ''Invalid access token''), db)),
      get_callback = (\<lambda>srv oreq.
        case map_of (oauth_parameters oreq) ''oauth_callback'' of
          None \<Rightarrow> Inl (OAuthError ''Parameter not found: oauth_callback'')
        | Some cb \<Rightarrow> Inr cb),
      get_normalized_parameters = (\<lambda>oreq. Inr ''''),
      to_string = token_to_string (\<lambda>s. s)\<rparr>"

definition example_django :: "string list django" where
  "example_django =
     \<lparr>OAUTH_AUTH_VIEW = None, OAUTH_CALLBACK_VIEW = None,
      call_auth_view = (\<lambda>name request tok callback params db. (Inr (HttpResponse ''consent''), db)),
      call_callback_view = (\<lambda>name request tok db. (Inr (HttpResponse ''done''), db)),
      iri_to_uri = (\<lambda>s. s),
      login_url = (\<lambda>request. ''/accounts/login/'')\<rparr>"

text \<open>The parameters of the specification's request-token scenario.\<close>

definition signed_params :: "string \<Rightarrow> (string \<times> string) list" where
  "signed_params consumer_k =
     [(''oauth_consumer_key'', consumer_k), (''oauth_signature_method'', ''PLAINTEXT''),
      (''oauth_signature'', ''cs1&''), (''oauth_timestamp'', ''1257894000''),
      (''oauth_nonce'', ''n1'')]"

definition token_request :: "string \<Rightarrow> request" where
  "token_request consumer_k = blank_request\<lparr>GET := signed_params consumer_k\<rparr>"

definition api_request :: "string \<Rightarrow> request" where
  "api_request token_k = blank_request\<lparr>GET := (''oauth_token'', token_k) # signed_params ''ck1''\<rparr>"

definition user_post_request :: "(string \<times> string) list \<Rightarrow> (string \<times> string) list \<Rightarrow> request" where
  "user_post_request post_items session_items =
     blank_request\<lparr>http_method := ''POST'', POST := post_items, session := session_items,
                   req_user := User 7\<rparr>"

definition mismatch_request :: request where
  "mismatch_request = user_post_request [(''oauth_consumer_key'', ''ck1'')] []"

definition deny_request :: request where
  "deny_request =
     user_post_request
       [(''oauth_consumer_key'', ''ck1''), (''oauth_callback'', ''http://c.example/cb'')]
       [(''oauth'', ''rt1'')]"

definition grant_request :: request where
  "grant_request =
     user_post_request [(''oauth_consumer_key'', ''ck1''), (''authorize_access'', ''1'')]
       [(''oauth'', ''rt1'')]"

text \<open>What \<open>example_lib\<close> and \<open>initialize_server_request\<close> make of a request.\<close>

definition example_oauth_request :: "request \<Rightarrow> oauth_request" where
  "example_oauth_request request =
     \<lparr>oauth_method = http_method request, oauth_url = absolute_uri request,
      oauth_parameters = REQUEST_items request\<rparr>"

definition example_server :: "request \<Rightarrow> oauth_server" where
  "example_server request =
     \<lparr>data_store = DataStore (example_oauth_request request),
      signature_methods = [''PLAINTEXT'', ''HMAC-SHA1'']\<rparr>"

text \<open>
  An Authorization header with five parameters: \<^verbatim>\<open>oauth_signature\<close> is not
  one of them.
\<close>

definition five_param_header :: string where
  "five_param_header =
     ''OAuth oauth_consumer_key=\"ck1\", oauth_token=\"at1\", oauth_signature_method=\"PLAINTEXT\", oauth_timestamp=\"1257894000\", oauth_nonce=\"n1\"''"

definition header_request :: "string \<Rightarrow> request" where
  "header_request h = blank_request\<lparr>META := [(''HTTP_AUTHORIZATION'', h)]\<rparr>"

text \<open>The same five parameters in the query string.\<close>

definition five_key_request :: request where
  "five_key_request =
     blank_request
       \<lparr>GET := [(''oauth_consumer_key'', ''ck1''), (''oauth_token'', ''at1''),
                (''oauth_signature_method'', ''PLAINTEXT''),
                (''oauth_timestamp'', ''1257894000''), (''oauth_nonce'', ''n1'')]\<rparr>"

lemmas example_defs = example_lib_def example_django_def blank_request_def signed_params_def
  token_request_def api_request_def user_post_request_def mismatch_request_def deny_request_def
  grant_request_def example_oauth_request_def example_server_def
  example_request_token_def example_access_token_def example_consumer_def token_to_string_def
  initialize_server_request_def REQUEST_items_def OAuthServer_def add_signature_method_def

lemmas string_defs = split1_def lower_def lower_char_def strip_def is_space_def py_int_def
  digit_val_def

section \<open>Properties of HttpBasicAuthentication\<close>

lemma unpack2_split1_nonempty: "unpack2 (split1 sep s) = Inr (a, b) \<Longrightarrow> s \<noteq> []"
  by (auto simp: split1_def)

text \<open>
  C1. The claim is that \<open>is_authenticated\<close> of the Basic handler never raises.
  It does: a header value without a space (\<^verbatim>\<open>Basic\<close>) cannot be unpacked
  into scheme and payload, a payload the codec rejects raises the codec's error,
  and decoded credentials without a colon (\<^verbatim>\<open>alice\<close>) cannot be unpacked
  into name and password. Each exception escapes the method.
\<close>

theorem basic_is_authenticated_raises:
  "basic_is_authenticated example_b64decode (basic_init_default (\<lambda>u p. None))
     (header_request ''Basic'') = Inl ValueError
   \<and> basic_is_authenticated example_b64decode (basic_init_default (\<lambda>u p. None))
     (header_request ''Basic a'') = Inl Base64Error
   \<and> basic_is_authenticated example_b64decode (basic_init_default (\<lambda>u p. None))
     (header_request ''Basic YWxpY2U='') = Inl ValueError"
  by (simp add: basic_is_authenticated_def string_defs example_b64decode_def blank_request_def
      header_request_def)

text \<open>
  C7. For every realm \<open>r\<close> the challenge of the Basic handler has status 401
  and the header \<^verbatim>\<open>WWW-Authenticate: Basic realm="r"\<close>; with the default
  realm the header is \<^verbatim>\<open>Basic realm="API"\<close>.
\<close>

theorem basic_challenge_401_realm:
  "status_code (basic_challenge (basic_init f r)) = 401
   \<and> get_header (basic_challenge (basic_init f r)) ''WWW-Authenticate''
       = Some (''Basic realm=\"'' @ r @ ''\"'')
   \<and> status_code (basic_challenge (basic_init_default f)) = 401
   \<and> get_header (basic_challenge (basic_init_default f)) ''WWW-Authenticate''
       = Some ''Basic realm=\"API\"''"
  by (simp add: basic_challenge_def basic_init_def basic_init_default_def set_header_def
      get_header_def HttpResponse_def)

text \<open>
  C9. When the Authorization header is present, names the Basic scheme and
  parses (scheme and payload, payload decodes, name and password), and the
  credential check rejects the credentials, \<open>is_authenticated\<close> returns
  \<^verbatim>\<open>False\<close> and leaves \<^verbatim>\<open>request.user\<close> overwritten with
  \<^verbatim>\<open>AnonymousUser\<close>.
\<close>

theorem basic_failure_overwrites_user:
  assumes "map_of (META request) ''HTTP_AUTHORIZATION'' = Some auth_string"
    and "unpack2 (split1 CHR '' '' auth_string) = Inr (authmeth, auth)"
    and "lower authmeth = ''basic''"
    and "b64decode (strip auth) = Inr decoded"
    and "unpack2 (split1 CHR '':'' decoded) = Inr (username, password)"
    and "auth_func self username password = None"
  shows "basic_is_authenticated b64decode self request
           = Inr (False, request\<lparr>req_user := AnonymousUser\<rparr>)"
proof -
  have "auth_string \<noteq> []"
    using assms(2) by (rule unpack2_split1_nonempty)
  then show ?thesis
    using assms by (simp add: basic_is_authenticated_def)
qed

text \<open>
  The scenario of the specification: \<^verbatim>\<open>alice:wrongpass\<close> against a table
  where the password of alice is another one, on a request that a user was
  bound to before.
\<close>

theorem basic_failure_overwrites_user_witness:
  "basic_is_authenticated example_b64decode
     (basic_init_default (django_auth [(''alice'', (1, \<lambda>p. p = ''secret''))]))
     ((header_request ''Basic YWxpY2U6d3JvbmdwYXNz'')\<lparr>req_user := User 7\<rparr>)
   = Inr (False, header_request ''Basic YWxpY2U6d3JvbmdwYXNz'')
   \<and> req_user (header_request ''Basic YWxpY2U6d3JvbmdwYXNz'') = AnonymousUser"
  using basic_failure_overwrites_user
    [of "(header_request ''Basic YWxpY2U6d3JvbmdwYXNz'')\<lparr>req_user := User 7\<rparr>"
      "''Basic YWxpY2U6d3JvbmdwYXNz''" "''Basic''" "''YWxpY2U6d3JvbmdwYXNz''"
      example_b64decode "''alice:wrongpass''" "''alice''" "''wrongpass''"
      "basic_init_default (django_auth [(''alice'', (1, \<lambda>p. p = ''secret''))])"]
  by (simp add: string_defs example_b64decode_def blank_request_def header_request_def
      basic_init_default_def basic_init_def django_auth_def)

section \<open>Properties of the OAuth responses\<close>





lemma plain_response_fields:
  "status_code (HttpResponse b) = 200"
  "get_header (HttpResponse b) k = None"
  "content (HttpResponse b) = b"
  by (simp_all add: HttpResponse_def get_header_def)


subsection \<open>The paths of the three endpoints\<close>


lemma request_token_success:
  assumes "initialize_server_request L request = Inr (Some srv, Some oreq)"
    and "fetch_request_token L srv oreq db = (Inr tok, db')"
  shows "oauth_request_token L request db = (Inr (HttpResponse (to_string L tok False)), db')"
  using assms by (simp add: oauth_request_token_def)








subsection \<open>C3: which responses are 401 responses\<close>




subsection \<open>C4: an OAuthError of the server becomes a 401\<close>



subsection \<open>C8: the request-token endpoint on success\<close>

text \<open>
  C8. When the request parses and \<open>fetch_request_token\<close> succeeds with a
  token, \<open>oauth_request_token\<close> returns a response with status 200 whose body
  is \<^verbatim>\<open>token.to_string()\<close> of that token; with the token representation of
  the specification the body is \<^verbatim>\<open>oauth_token=<key>&oauth_token_secret=<secret>\<close>
  for the key and the secret of the issued token.
\<close>

theorem request_token_success_200:
  assumes "initialize_server_request L request = Inr (Some srv, Some oreq)"
    and "fetch_request_token L srv oreq db = (Inr tok, db')"
  shows "oauth_request_token L request db = (Inr (HttpResponse (to_string L tok False)), db')
         \<and> status_code (HttpResponse (to_string L tok False)) = 200
         \<and> content (HttpResponse (to_string L tok False)) = to_string L tok False
         \<and> (to_string L = token_to_string quote
              \<longrightarrow> content (HttpResponse (to_string L tok False))
                    = ''oauth_token='' @ quote (token_key tok)
                        @ ''&oauth_token_secret='' @ quote (token_secret tok))"
  using request_token_success [OF assms]
  by (simp add: plain_response_fields token_to_string_def)

text \<open>
  The scenario of the specification: consumer \<^verbatim>\<open>ck1\<close> with the secret
  \<^verbatim>\<open>cs1\<close>, PLAINTEXT signature \<^verbatim>\<open>cs1&\<close>, nonce \<^verbatim>\<open>n1\<close>.
\<close>

theorem request_token_success_200_witness:
  "initialize_server_request example_lib (token_request ''ck1'')
     = Inr (Some (example_server (token_request ''ck1'')),
            Some (example_oauth_request (token_request ''ck1'')))
   \<and> fetch_request_token example_lib (example_server (token_request ''ck1''))
        (example_oauth_request (token_request ''ck1'')) []
     = (Inr example_request_token, [])
   \<and> oauth_request_token example_lib (token_request ''ck1'') []
     = (Inr \<lparr>status_code = 200, headers = [],
             content = ''oauth_token=rt1&oauth_token_secret=rs1''\<rparr>, [])"
  using request_token_success_200
      [of example_lib "token_request ''ck1''" "example_server (token_request ''ck1'')"
        "example_oauth_request (token_request ''ck1'')" "[]" example_request_token "[]"
        "\<lambda>s. s"]
  by (simp add: example_defs HttpResponse_def)

section \<open>Properties of OAuthAuthentication\<close>

subsection \<open>C5: the pre-check\<close>

text \<open>\<open>str_contains\<close> is substring containment, as \<^verbatim>\<open>in\<close> on two strings is.\<close>

lemma startswith_iff: "startswith p l \<longleftrightarrow> (\<exists>v. l = p @ v)"
  by (induction p l rule: startswith.induct) auto

lemma str_contains_iff: "str_contains p l \<longleftrightarrow> (\<exists>u v. l = u @ p @ v)"
proof (induction l)
  case Nil
  then show ?case by auto
next
  case (Cons c cs)
  show ?case
  proof
    assume "str_contains p (c # cs)"
    then consider "startswith p (c # cs)" | "str_contains p cs"
      by auto
    then show "\<exists>u v. c # cs = u @ p @ v"
    proof cases
      case 1
      then obtain v where "c # cs = p @ v"
        by (auto simp: startswith_iff)
      then have "c # cs = [] @ p @ v"
        by simp
      then show ?thesis
        by blast
    next
      case 2
      then obtain u v where "cs = u @ p @ v"
        using Cons.IH by auto
      then have "c # cs = (c # u) @ p @ v"
        by simp
      then show ?thesis
        by blast
    qed
  next
    assume "\<exists>u v. c # cs = u @ p @ v"
    then obtain u v where uv: "c # cs = u @ p @ v"
      by blast
    show "str_contains p (c # cs)"
    proof (cases u)
      case Nil
      then have "startswith p (c # cs)"
        using uv by (auto simp: startswith_iff)
      then show ?thesis
        by simp
    next
      case (Cons a u')
      then have "cs = u' @ p @ v"
        using uv by simp
      then have "str_contains p cs"
        using Cons.IH by blast
      then show ?thesis
        by simp
    qed
  qed
qed

text \<open>
  C5. The claim is that \<open>is_valid_request\<close> holds exactly when all six names
  are parameters of the Authorization header, or all six are parameters of the
  query and body. The code misses it on the header: there \<open>is_in\<close> tests a
  raw string, so a header with five parameters, none of them
  \<^verbatim>\<open>oauth_signature\<close>, passes, because \<^verbatim>\<open>oauth_signature\<close> occurs
  inside \<^verbatim>\<open>oauth_signature_method\<close>. The same five parameters sent in
  the query string are refused, as the claim and the docstring of the method
  say: on \<^verbatim>\<open>request.REQUEST\<close> the same \<open>is_in\<close> tests keys.
\<close>

theorem is_valid_request_overmatches:
  "is_valid_request (header_request five_param_header)
   \<and> \<not> spec_is_valid_request (header_request five_param_header)
   \<and> header_param_names five_param_header
       = [''oauth_consumer_key'', ''oauth_token'', ''oauth_signature_method'',
          ''oauth_timestamp'', ''oauth_nonce'']
   \<and> \<not> is_valid_request five_key_request
   \<and> \<not> spec_is_valid_request five_key_request"
  by (simp add: is_valid_request_def spec_is_valid_request_def five_param_header_def must_have_def
      blank_request_def header_request_def header_param_names_def strip_def is_space_def
      REQUEST_contains_def five_key_request_def)

subsection \<open>C2, C6, C10: validation inside \<open>is_authenticated\<close>\<close>



text \<open>
  C6. When the pre-check passes and validation succeeds with a consumer and a
  token, \<open>is_authenticated\<close> returns \<^verbatim>\<open>True\<close> and leaves
  \<^verbatim>\<open>request.user\<close> bound to the user of the token and
  \<^verbatim>\<open>request.throttle_extra\<close> to the id of the token's consumer.
\<close>

theorem oauth_success_binds_user:
  assumes "is_valid_request request"
    and "validate_token L request True True db = (Inr (Some c, Some t, ps), db')"
  shows "oauth_is_authenticated L request db =
           (Inr True,
            request\<lparr>req_user := token_user t,
                    throttle_extra := Some (consumer_id (token_consumer t))\<rparr>,
            [], db')"
  using assms by (simp add: oauth_is_authenticated_def)

theorem oauth_success_binds_user_witness:
  "is_valid_request (api_request ''at1'')
   \<and> validate_token example_lib (api_request ''at1'') True True []
     = (Inr (Some example_consumer, Some example_access_token,
             (''oauth_token'', ''at1'') # signed_params ''ck1''), [])
   \<and> oauth_is_authenticated example_lib (api_request ''at1'') []
     = (Inr True, (api_request ''at1'')\<lparr>req_user := User 42, throttle_extra := Some 5\<rparr>, [], [])"
  using oauth_success_binds_user
      [of "api_request ''at1''" example_lib "[]" example_consumer example_access_token
        "(''oauth_token'', ''at1'') # signed_params ''ck1''" "[]"]
  by (simp add: validate_token_def is_valid_request_def must_have_def REQUEST_contains_def
      example_defs)

text \<open>
  C10. \<open>validate_token\<close> ignores its two flags: whatever booleans are passed,
  the result is the one of \<^verbatim>\<open>validate_token(request, True, True)\<close>.
\<close>

theorem validate_token_ignores_flags:
  "validate_token L request a b db = validate_token L request True True db"
  by (simp add: validate_token_def)

end
